theory Spec2Isabelle
  imports Complex_Main "HOL-Library.Multiset" "HOL-Library.Sublist"
begin

section \<open>JavaScript string helpers used by the frontend components\<close>

text \<open>
  JavaScript strings are modelled as \<open>string\<close>: lists of 8-bit code units, the range
  U+0000 to U+00FF. On these \<open>toLowerCase\<close> folds the letters A to Z and the letters
  U+00C0 to U+00DE other than the multiplication sign U+00D7, each to the code unit
  32 above it (bit 5 set), and leaves every other code unit as it is.
\<close>

definition isUpperCase :: "char \<Rightarrow> bool" where
  "isUpperCase c =
     (let n = (of_char c :: nat)
      in (65 \<le> n \<and> n \<le> 90) \<or> (192 \<le> n \<and> n \<le> 222 \<and> n \<noteq> 215))"

definition toLowerCase_char :: "char \<Rightarrow> char" where
  "toLowerCase_char c =
     (if isUpperCase c
      then (case c of Char b0 b1 b2 b3 b4 b5 b6 b7 \<Rightarrow> Char b0 b1 b2 b3 b4 True b6 b7)
      else c)"

definition toLowerCase :: "string \<Rightarrow> string" where
  "toLowerCase s = map toLowerCase_char s"

text \<open>\<open>s.split(c)\<close> for a one-character separator: never the empty array.\<close>

fun split_str :: "char \<Rightarrow> string \<Rightarrow> string list" where
  "split_str c [] = [[]]"
| "split_str c (x # xs) =
     (if x = c then [] # split_str c xs
      else (case split_str c xs of
              [] \<Rightarrow> [[x]]
            | w # ws \<Rightarrow> (x # w) # ws))"

text \<open>\<open>arr.join(sep)\<close> on an array of strings.\<close>

fun join :: "string \<Rightarrow> string list \<Rightarrow> string" where
  "join sep [] = []"
| "join sep [x] = x"
| "join sep (x # y # ys) = x @ sep @ join sep (y # ys)"

text \<open>\<open>hay.includes(needle)\<close>: the needle occurs as a contiguous substring.\<close>

fun includes_str :: "string \<Rightarrow> string \<Rightarrow> bool" where
  "includes_str [] needle = (needle = [])"
| "includes_str (h # hs) needle = (prefix needle (h # hs) \<or> includes_str hs needle)"

text \<open>
  \<open>s.trim()\<close>: the white space and line terminators of the 8-bit range (tab, line feed,
  vertical tab, form feed, carriage return, space, no-break space) are removed at both ends.
\<close>

definition isWhiteSpace :: "char \<Rightarrow> bool" where
  "isWhiteSpace c = ((of_char c :: nat) \<in> {9, 10, 11, 12, 13, 32, 160})"

definition trim :: "string \<Rightarrow> string" where
  "trim s = rev (dropWhile isWhiteSpace (rev (dropWhile isWhiteSpace s)))"

text \<open>Decimal digits of a natural number, and \<open>(num / den).toFixed(2)\<close> for a quotient of
  natural numbers (rounded half up to hundredths).\<close>

definition digit_char :: "nat \<Rightarrow> char" where
  "digit_char d = ''0123456789'' ! (d mod 10)"

function show_nat :: "nat \<Rightarrow> string" where
  "show_nat n = (if n < 10 then [digit_char n] else show_nat (n div 10) @ [digit_char (n mod 10)])"
  by pat_completeness auto
termination
  by (relation "measure id") auto

declare show_nat.simps [simp del]

definition toFixed2 :: "nat \<Rightarrow> nat \<Rightarrow> string" where
  "toFixed2 num den =
     (let h = (200 * num + den) div (2 * den)
      in show_nat (h div 100) @ ''.'' @ [digit_char (h mod 100 div 10), digit_char (h mod 10)])"

section \<open>VideoUpload: file validation and selection\<close>

text \<open>The fields of a browser \<open>File\<close> that the component reads.\<close>

record js_file =
  file_type :: string
  file_name :: string
  file_size :: nat

record validation =
  isValid :: bool
  error :: "string option"

definition MAX_FILE_SIZE :: nat where
  "MAX_FILE_SIZE = 2 * 1024 * 1024 * 1024"

definition ALLOWED_VIDEO_TYPES :: "string list" where
  "ALLOWED_VIDEO_TYPES =
     [''video/mp4'', ''video/webm'', ''video/quicktime'', ''video/x-msvideo'', ''video/x-matroska'']"

definition ALLOWED_EXTENSIONS :: "string list" where
  "ALLOWED_EXTENSIONS = [''.mp4'', ''.webm'', ''.mov'', ''.avi'', ''.mkv'']"

text \<open>\<open>'.' + file.name.split('.').pop().toLowerCase()\<close>\<close>

definition fileExtension :: "js_file \<Rightarrow> string" where
  "fileExtension f = ''.'' @ toLowerCase (last (split_str CHR ''.'' (file_name f)))"

definition maxSizeGB :: string where
  "maxSizeGB = toFixed2 MAX_FILE_SIZE (1024 * 1024 * 1024)"

definition validateFile :: "js_file \<Rightarrow> validation" where
  "validateFile f =
     (if file_type f \<notin> set ALLOWED_VIDEO_TYPES then
        \<lparr>isValid = False,
         error = Some (''Invalid file type. Allowed types: '' @ join '', '' ALLOWED_EXTENSIONS)\<rparr>
      else if fileExtension f \<notin> set ALLOWED_EXTENSIONS then
        \<lparr>isValid = False,
         error = Some (''Invalid file extension. Allowed: '' @ join '', '' ALLOWED_EXTENSIONS)\<rparr>
      else if file_size f > MAX_FILE_SIZE then
        \<lparr>isValid = False,
         error = Some (''File size exceeds maximum limit of '' @ maxSizeGB @ ''GB'')\<rparr>
      else if file_size f = 0 then
        \<lparr>isValid = False, error = Some ''File is empty''\<rparr>
      else \<lparr>isValid = True, error = None\<rparr>)"

text \<open>
  The component state that \<open>handleFileSelect\<close> and \<open>uploadFile\<close> write, with the list of
  files handed to \<open>xhr.send\<close> (\<open>POST /api/videos/upload\<close>) as the trace of started uploads.
\<close>

record upload_state =
  uploadProgress :: nat
  isUploading :: bool
  uploadedFile :: "js_file option"
  ui_error :: "string option"
  fileSize :: nat
  sent :: "js_file list"

text \<open>What setting up the request does: it is sent, or a step throws \<open>err\<close> with this message.\<close>

datatype xhr_outcome = Sent | Threw string

text \<open>
  The synchronous part of \<open>uploadFile\<close>; the progress, load, error and abort listeners run
  later, from browser events.
\<close>

definition uploadFile :: "xhr_outcome \<Rightarrow> js_file \<Rightarrow> upload_state \<Rightarrow> upload_state" where
  "uploadFile x f s =
     (let s1 = s\<lparr>isUploading := True, ui_error := None, uploadProgress := 0\<rparr>
      in case x of
           Sent \<Rightarrow> s1\<lparr>sent := sent s1 @ [f]\<rparr>
         | Threw msg \<Rightarrow>
             s1\<lparr>ui_error := Some (if msg = [] then ''An error occurred during upload'' else msg),
                isUploading := False, uploadProgress := 0\<rparr>)"

definition handleFileSelect :: "xhr_outcome \<Rightarrow> js_file list \<Rightarrow> upload_state \<Rightarrow> upload_state" where
  "handleFileSelect x files s =
     (case files of
        [] \<Rightarrow> s
      | f # _ \<Rightarrow>
          (let v = validateFile f
           in if \<not> isValid v then s\<lparr>ui_error := error v, uploadedFile := None\<rparr>
              else uploadFile x f (s\<lparr>fileSize := file_size f, ui_error := None\<rparr>)))"

section \<open>TaskList: filtering, sorting and the progress shown\<close>

text \<open>
  The fields of a task object that the component reads. \<open>created_at\<close> holds the time value
  of \<open>new Date(task.created_at)\<close> (\<open>None\<close> for an invalid date, whose time value is NaN);
  \<open>task_progress\<close> is \<open>None\<close> when the field is missing.
\<close>

record ui_task =
  task_id :: string
  task_name :: string
  task_status :: string
  created_at :: "int option"
  task_progress :: "int option"

text \<open>
  The comparator handed to \<open>sort\<close>. \<open>localeCompare\<close> is the host's collation and is a
  parameter. A NaN difference of two dates is read as \<open>+0\<close> by \<open>sort\<close>.
\<close>

definition compareTasks :: "(string \<Rightarrow> string \<Rightarrow> int) \<Rightarrow> string \<Rightarrow> ui_task \<Rightarrow> ui_task \<Rightarrow> int" where
  "compareTasks localeCompare sortBy a b =
     (if sortBy = ''status'' then localeCompare (task_status a) (task_status b)
      else if sortBy = ''name'' then localeCompare (task_name a) (task_name b)
      else (case (created_at b, created_at a) of
              (Some tb, Some ta) \<Rightarrow> tb - ta
            | _ \<Rightarrow> 0))"

text \<open>
  \<open>Array.prototype.sort\<close> with a comparator, as a stable insertion sort: \<open>x\<close> stays in
  front of \<open>y\<close> unless the comparator returns a positive number.
\<close>

fun insert_cmp :: "('a \<Rightarrow> 'a \<Rightarrow> int) \<Rightarrow> 'a \<Rightarrow> 'a list \<Rightarrow> 'a list" where
  "insert_cmp cmp x [] = [x]"
| "insert_cmp cmp x (y # ys) = (if cmp x y \<le> 0 then x # y # ys else y # insert_cmp cmp x ys)"

definition sort_cmp :: "('a \<Rightarrow> 'a \<Rightarrow> int) \<Rightarrow> 'a list \<Rightarrow> 'a list" where
  "sort_cmp cmp xs = foldr (insert_cmp cmp) xs []"

text \<open>The search predicate of the second \<open>filter\<close>.\<close>

definition matchesQuery :: "string \<Rightarrow> ui_task \<Rightarrow> bool" where
  "matchesQuery searchQuery t =
     (includes_str (toLowerCase (task_name t)) (toLowerCase searchQuery)
      \<or> includes_str (toLowerCase (task_id t)) (toLowerCase searchQuery))"

text \<open>The list that the filter-and-sort effect computes (\<open>sorted\<close>).\<close>

definition filterAndSort ::
  "(string \<Rightarrow> string \<Rightarrow> int) \<Rightarrow> ui_task list \<Rightarrow> string \<Rightarrow> string \<Rightarrow> string \<Rightarrow> ui_task list" where
  "filterAndSort localeCompare tasks filterStatus' searchQuery' sortBy' =
     (let filtered0 = tasks;
          filtered1 = (if filterStatus' \<noteq> ''all''
                       then filter (\<lambda>t. task_status t = filterStatus') filtered0
                       else filtered0);
          filtered2 = (if trim searchQuery' \<noteq> []
                       then filter (matchesQuery searchQuery') filtered1
                       else filtered1)
      in sort_cmp (compareTasks localeCompare sortBy') filtered2)"

text \<open>
  The state hooks of the component that the list depends on (\<open>expandedTaskId\<close> left out),
  with their initial values: \<open>useState(tasks)\<close>, \<open>'all'\<close>, \<open>'created_at'\<close> and the empty
  string.
\<close>

record tasklist_state =
  filteredTasks :: "ui_task list"
  filterStatus :: string
  sortBy :: string
  searchQuery :: string

definition initial_state :: "ui_task list \<Rightarrow> tasklist_state" where
  "initial_state tasks =
     \<lparr>filteredTasks = tasks, filterStatus = ''all'', sortBy = ''created_at'', searchQuery = []\<rparr>"

text \<open>
  The effect: it runs after a render in which \<open>tasks\<close>, \<open>filterStatus\<close>, \<open>searchQuery\<close> or
  \<open>sortBy\<close> has changed, and stores the computed list with \<open>setFilteredTasks\<close>.
\<close>

definition runEffect :: "(string \<Rightarrow> string \<Rightarrow> int) \<Rightarrow> ui_task list \<Rightarrow> tasklist_state \<Rightarrow> tasklist_state" where
  "runEffect localeCompare tasks st =
     st\<lparr>filteredTasks :=
          filterAndSort localeCompare tasks (filterStatus st) (searchQuery st) (sortBy st)\<rparr>"

text \<open>
  What a render with the props \<open>tasks\<close> and the state \<open>st\<close> displays: the task cards of
  \<open>filteredTasks\<close> in order, and, when that list is not empty, the footer
  "Showing X of Y task(s)" with \<open>X = filteredTasks.length\<close> and \<open>Y = tasks.length\<close>.
\<close>

record view =
  shown :: "ui_task list"
  footer :: "(nat \<times> nat) option"

definition render :: "ui_task list \<Rightarrow> tasklist_state \<Rightarrow> view" where
  "render tasks st =
     \<lparr>shown = filteredTasks st,
      footer = (if length (filteredTasks st) > 0
                then Some (length (filteredTasks st), length tasks) else None)\<rparr>"

text \<open>\<open>task.progress || 0\<close>: a missing progress and the number 0 both give 0.\<close>

definition getProgressPercentage :: "ui_task \<Rightarrow> int" where
  "getProgressPercentage t =
     (if task_status t = ''completed'' then 100
      else if task_status t = ''failed'' then 0
      else (case task_progress t of None \<Rightarrow> 0 | Some p \<Rightarrow> p))"

section \<open>Task lifecycle (ARCHITECTURE.md, Task Lifecycle and Worker Failure Handling; README.md, Retry Failed Job)\<close>

datatype status = QUEUED | PROCESSING | COMPLETED | FAILED | CANCELLED

text \<open>The fields of the task model that the operations read or write.\<close>

record task_record =
  status :: status
  progress :: nat
  output_video_url :: "string option"
  error_message :: "string option"
  started_at :: "nat option"
  completed_at :: "nat option"
  retry_count :: nat
  max_retries :: nat

text \<open>Transition 1, INITIAL to QUEUED: the record created for an accepted upload.\<close>

definition create_task :: "nat \<Rightarrow> task_record" where
  "create_task maxRetries =
     \<lparr>status = QUEUED, progress = 0, output_video_url = None, error_message = None,
      started_at = None, completed_at = None, retry_count = 0, max_retries = maxRetries\<rparr>"

text \<open>The error a processing attempt ends with (\<open>details\<close> left out).\<close>

datatype ErrorSeverity = RETRIABLE | PERMANENT | TRANSIENT | FATAL

record VideoProcessingError =
  err_code :: string
  err_message :: string
  err_severity :: ErrorSeverity

text \<open>
  The operations that change a record. The triggers of transitions 2 to 5 of
  ARCHITECTURE.md: a worker picks the task up at a time, processing finishes with a result
  URL at a time, a processing error occurs, the user asks for cancellation. The progress
  update that a worker writes while it processes. The loss of the worker's heartbeat
  (Graceful Degradation: "If no heartbeat > 3 minutes, task reassigned", "Task state
  reverted to QUEUED for re-processing"). The manual retry of a failed task (README
  "Retry Failed Job", \<open>POST /jobs/:jobId/retry\<close>, answered with status \<open>pending\<close>, the
  README's name of the queued state; the Retry button that TaskList shows for a failed
  task; the dead-letter queue's "Can be manually reprocessed after fixes").
\<close>

datatype trigger =
    TaskAcquired nat
  | ProgressUpdate nat
  | ProcessingFinished string nat
  | ProcessingError VideoProcessingError
  | CancellationRequest
  | HeartbeatLost
  | RetryFailed

text \<open>
  One transition of a record; \<open>None\<close> when the trigger has no transition from the record's
  state. Transition 4 increments \<open>retry_count\<close> first and compares it with \<open>max_retries\<close>
  afterwards; it does not read the severity (the error table gives the permanent errors
  0 retries, with which the comparison fails at once). Transition 5 is written for any
  state. A progress update is the database update
  \<open>WHERE status = 'processing' ... SET progress = new_progress\<close> (the version counter of
  the optimistic lock is left out); it leaves the status as it is. A lost heartbeat
  reverts a PROCESSING record to QUEUED, and the manual retry puts a FAILED record back to
  QUEUED; the sources name no other field that these two write.
\<close>

fun transition :: "trigger \<Rightarrow> task_record \<Rightarrow> task_record option" where
  "transition (TaskAcquired now) r =
     (if status r = QUEUED then Some (r\<lparr>status := PROCESSING, started_at := Some now\<rparr>)
      else None)"
| "transition (ProgressUpdate new_progress) r =
     (if status r = PROCESSING then Some (r\<lparr>progress := new_progress\<rparr>) else None)"
| "transition (ProcessingFinished url now) r =
     (if status r = PROCESSING
      then Some (r\<lparr>output_video_url := Some url, status := COMPLETED, completed_at := Some now\<rparr>)
      else None)"
| "transition (ProcessingError err) r =
     (if status r = PROCESSING
      then (let r1 = r\<lparr>retry_count := retry_count r + 1\<rparr>
            in if retry_count r1 < max_retries r1
               then Some (r1\<lparr>status := QUEUED\<rparr>)
               else Some (r1\<lparr>status := FAILED, error_message := Some (err_message err)\<rparr>))
      else None)"
| "transition CancellationRequest r = Some (r\<lparr>status := CANCELLED\<rparr>)"
| "transition HeartbeatLost r =
     (if status r = PROCESSING then Some (r\<lparr>status := QUEUED\<rparr>) else None)"
| "transition RetryFailed r =
     (if status r = FAILED then Some (r\<lparr>status := QUEUED\<rparr>) else None)"

text \<open>
  The states a record goes through under a list of triggers, the starting state first; a
  trigger with no transition ends the run.
\<close>

fun run_triggers :: "trigger list \<Rightarrow> task_record \<Rightarrow> task_record list" where
  "run_triggers [] r = [r]"
| "run_triggers (e # es) r =
     (case transition e r of
        None \<Rightarrow> [r]
      | Some r' \<Rightarrow> r # run_triggers es r')"

text \<open>How often a list of states steps from QUEUED to PROCESSING and back to QUEUED.\<close>

fun count_requeues :: "status list \<Rightarrow> nat" where
  "count_requeues (a # b # c # rest) =
     (if a = QUEUED \<and> b = PROCESSING \<and> c = QUEUED then 1 else 0) + count_requeues (b # c # rest)"
| "count_requeues _ = 0"

text \<open>The retriable error of the error table that stands for a failed attempt.\<close>

definition UPLOAD_FAILED :: VideoProcessingError where
  "UPLOAD_FAILED =
     \<lparr>err_code = ''UPLOAD_FAILED'', err_message = ''Network issues'', err_severity = RETRIABLE\<rparr>"

text \<open>
  The triggers of a task that is picked up at times \<open>now\<close>, \<open>now + 1\<close>, ... and whose
  every attempt ends in that retriable error: \<open>n\<close> attempts are offered.
\<close>

fun failing_attempts :: "nat \<Rightarrow> nat \<Rightarrow> trigger list" where
  "failing_attempts 0 now = []"
| "failing_attempts (Suc n) now =
     TaskAcquired now # ProcessingError UPLOAD_FAILED # failing_attempts n (Suc now)"

section \<open>Retry delay (ARCHITECTURE.md, Retry Strategy)\<close>

text \<open>
  \<open>calculate_retry_delay\<close> over the reals, with the draw of \<open>random.uniform(0.8, 1.2)\<close> as
  the argument \<open>jitter\<close>. \<open>2 ** (retry_count - 1)\<close> is an integer power for
  \<open>retry_count \<ge> 1\<close> and its reciprocal below. The rounding and the range of floating
  point are not modelled; within that range, scaling by a power of two is exact, so the
  real product is the value the code computes.
\<close>

definition base_delay :: "int \<Rightarrow> real" where
  "base_delay retryCount =
     (if 1 \<le> retryCount then 2 ^ nat (retryCount - 1) else 1 / 2 ^ nat (1 - retryCount))"

definition calculate_retry_delay :: "real \<Rightarrow> int \<Rightarrow> int \<Rightarrow> real" where
  "calculate_retry_delay jitter retryCount maxRetries = min (base_delay retryCount * jitter) 300"

section \<open>Update batching (ARCHITECTURE.md, Update Queue Management)\<close>

text \<open>
  An \<open>UpdateBatcher\<close>: its \<open>queue\<close> field, and the calls of \<open>onBatch\<close> made so far as the
  trace \<open>delivered\<close>. \<open>onInterval\<close> is the callback that \<open>start\<close> gives to \<open>setInterval\<close>;
  it runs once at the end of every interval of \<open>batchIntervalMs\<close>.
\<close>

record 'u batcher =
  queue :: "'u list"
  delivered :: "'u list"

definition new_batcher :: "'u batcher" where
  "new_batcher = \<lparr>queue = [], delivered = []\<rparr>"

definition addUpdate :: "'u \<Rightarrow> 'u batcher \<Rightarrow> 'u batcher" where
  "addUpdate update b = b\<lparr>queue := [update]\<rparr>"

definition onInterval :: "'u batcher \<Rightarrow> 'u batcher" where
  "onInterval b =
     (case queue b of
        [] \<Rightarrow> b
      | u # _ \<Rightarrow> b\<lparr>delivered := delivered b @ [u], queue := []\<rparr>)"

text \<open>The updates of one interval, in order of arrival.\<close>

definition addUpdates :: "'u list \<Rightarrow> 'u batcher \<Rightarrow> 'u batcher" where
  "addUpdates us b = foldl (\<lambda>b u. addUpdate u b) b us"

section \<open>Checkpoint store\<close>

text \<open>
  Modelled from the spec: the rejection \<open>StaleCheckpoint\<close> of the Checkpoint Store, which
  no source file contains.
\<close>

datatype checkpoint_error = StaleCheckpoint

text \<open>
  Modelled from the spec: the contents of the Checkpoint Store, which no source file
  contains. Per task identifier the store keeps the sequence number and the payload of
  the most recent durable checkpoint.
\<close>

type_synonym checkpoint_store = "string \<rightharpoonup> (nat \<times> string)"

text \<open>
  Modelled from the spec: the operation \<open>save(taskId, seq, payload)\<close> of the Checkpoint
  Store, which no source file contains. It rejects a write whose \<open>seq\<close> is not strictly
  greater than the stored sequence number with \<open>StaleCheckpoint\<close>; every other write,
  also the first one for a task, replaces the stored checkpoint. The result is the
  rejection, if any, and the store after the call.
\<close>

definition save ::
  "string \<Rightarrow> nat \<Rightarrow> string \<Rightarrow> checkpoint_store \<Rightarrow> checkpoint_error option \<times> checkpoint_store" where
  "save taskId seq payload store =
     (case store taskId of
        None \<Rightarrow> (None, store(taskId \<mapsto> (seq, payload)))
      | Some (stored_seq, stored_payload) \<Rightarrow>
          if seq > stored_seq then (None, store(taskId \<mapsto> (seq, payload)))
          else (Some StaleCheckpoint, store))"

section \<open>Task acquisition under the distributed lock\<close>

text \<open>
  Modelled from the spec: the answer \<open>AlreadyLeased\<close> of the operation
  \<open>acquire(workerId)\<close> to a worker that lost the race; no source file names it.
\<close>

datatype acquire_error = AlreadyLeased

datatype call_state = Idle | Calling | Locked | Acquired | Rejected acquire_error

text \<open>
  The lock key holds the worker that set it and the time at which it expires. The broker's
  queue holds the identifiers still waiting for delivery; the workers that call have been
  delivered theirs already.
\<close>

record system =
  lock :: "(nat \<times> nat) option"
  task :: task_record
  broker_queue :: "string list"
  calls :: "nat \<Rightarrow> call_state"

text \<open>The key is live at time \<open>now\<close>: it is set and has not expired.\<close>

definition live :: "nat \<Rightarrow> (nat \<times> nat) option \<Rightarrow> bool" where
  "live now key = (case key of None \<Rightarrow> False | Some (holder, expires) \<Rightarrow> now < expires)"

text \<open>
  \<open>SET key worker NX EX 600\<close> at time \<open>now\<close>: writes only when no live key is there, with
  a lifetime of 600 seconds, and says whether it wrote.
\<close>

definition set_nx_ex :: "nat \<Rightarrow> nat \<Rightarrow> (nat \<times> nat) option \<Rightarrow> bool \<times> (nat \<times> nat) option" where
  "set_nx_ex worker now key =
     (if live now key then (False, key) else (True, Some (worker, now + 600)))"

text \<open>
  Modelled from the spec: the operation \<open>acquire(workerId)\<close>, which no source file
  contains, as the next step of worker \<open>w\<close>'s call, taken at time \<open>now\<close>. The source has
  its parts: the lock command \<open>SET LOCK_KEY worker_id NX EX 600\<close>, released by
  \<open>DEL LOCK_KEY\<close> "on completion or timeout", and transition 2 (the worker acquires the
  task lock, then updates the database to \<open>status = PROCESSING\<close>, \<open>started_at = now\<close>).
  From the spec are the check that the record is QUEUED, made atomically with the write,
  the answer \<open>AlreadyLeased\<close> to a worker that lost the race, and that the loser drops the
  item without side effects. The lock command and the database write are separate steps
  of a call.
\<close>

definition acquire_step :: "nat \<Rightarrow> nat \<Rightarrow> system \<Rightarrow> system" where
  "acquire_step w now s =
     (case calls s w of
        Calling \<Rightarrow>
          (let (ok, key) = set_nx_ex w now (lock s)
           in if ok then s\<lparr>lock := key, calls := (calls s)(w := Locked)\<rparr>
              else s\<lparr>calls := (calls s)(w := Rejected AlreadyLeased)\<rparr>)
      | Locked \<Rightarrow>
          (case transition (TaskAcquired now) (task s) of
             Some r \<Rightarrow> s\<lparr>task := r, calls := (calls s)(w := Acquired)\<rparr>
           | None \<Rightarrow> s\<lparr>calls := (calls s)(w := Rejected AlreadyLeased)\<rparr>)
      | _ \<Rightarrow> s)"

text \<open>
  A schedule lists what happens next, in any order: worker \<open>w\<close> takes the next step of its
  call at a time, or the lock key is deleted (\<open>DEL LOCK_KEY\<close>, whoever issues it and
  whenever). The times need not increase along a schedule.
\<close>

datatype sched_event = WorkerStep nat nat | DelLock

fun system_step :: "sched_event \<Rightarrow> system \<Rightarrow> system" where
  "system_step (WorkerStep w now) s = acquire_step w now s"
| "system_step DelLock s = s\<lparr>lock := None\<rparr>"








section \<open>A collation for the examples\<close>

text \<open>Comparison of two strings by their code units, as a stand-in for \<open>localeCompare\<close>.\<close>

fun compare_code_units :: "string \<Rightarrow> string \<Rightarrow> int" where
  "compare_code_units [] [] = 0"
| "compare_code_units [] (y # ys) = - 1"
| "compare_code_units (x # xs) [] = 1"
| "compare_code_units (x # xs) (y # ys) =
     (if (of_char x :: nat) < of_char y then - 1
      else if (of_char y :: nat) < of_char x then 1
      else compare_code_units xs ys)"

section \<open>Properties of file validation\<close>

lemma split_str_nonempty: "split_str c s \<noteq> []"
  by (induction s) (auto split: list.splits)

lemma join_ALLOWED_EXTENSIONS:
  "join '', '' ALLOWED_EXTENSIONS = ''.mp4, .webm, .mov, .avi, .mkv''"
  by (simp add: ALLOWED_EXTENSIONS_def)

lemma maxSizeGB_value: "maxSizeGB = ''2.00''"
  by (simp add: maxSizeGB_def toFixed2_def MAX_FILE_SIZE_def show_nat.simps [of 2] digit_char_def)

lemma sent_uploadFile: "sent (uploadFile x f s) = (if x = Sent then sent s @ [f] else sent s)"
  by (cases x) (simp_all add: uploadFile_def Let_def)

lemma sent_handleFileSelect:
  "sent (handleFileSelect x (f # fs) s) =
     (if isValid (validateFile f) \<and> x = Sent then sent s @ [f] else sent s)"
  by (simp add: handleFileSelect_def Let_def sent_uploadFile)

lemma validateFile_valid_iff:
  "isValid (validateFile f) =
     (file_type f \<in> set ALLOWED_VIDEO_TYPES \<and> fileExtension f \<in> set ALLOWED_EXTENSIONS
      \<and> file_size f \<le> MAX_FILE_SIZE \<and> file_size f \<noteq> 0)"
  by (auto simp add: validateFile_def)

lemma validateFile_error_iff: "(error (validateFile f) = None) = isValid (validateFile f)"
  by (simp add: validateFile_def)

lemma validateFile_accept_iff:
  "(validateFile f = \<lparr>isValid = True, error = None\<rparr>) = isValid (validateFile f)"
  by (simp add: validateFile_def)

text \<open>
  Claim C4. \<open>validateFile\<close> returns \<open>isValid = false\<close> with a non-null error exactly when
  the MIME type is not one of the five allowed video types, or the lower-cased extension is
  not one of .mp4, .webm, .mov, .avi, .mkv, or the size exceeds 2 GiB, or the size is 0; for
  every other file it returns \<open>isValid = true\<close> and \<open>error = null\<close>; and
  \<open>handleFileSelect\<close> hands the first selected file to the upload request only then.
\<close>

theorem validateFile_rejects_exactly:
  "((isValid (validateFile f) = False \<and> error (validateFile f) \<noteq> None) =
      (file_type f \<notin> {''video/mp4'', ''video/webm'', ''video/quicktime'',
                      ''video/x-msvideo'', ''video/x-matroska''}
       \<or> fileExtension f \<notin> {''.mp4'', ''.webm'', ''.mov'', ''.avi'', ''.mkv''}
       \<or> file_size f > 2 * 1024 ^ 3
       \<or> file_size f = 0))
   \<and> ((validateFile f = \<lparr>isValid = True, error = None\<rparr>) =
      (file_type f \<in> {''video/mp4'', ''video/webm'', ''video/quicktime'',
                      ''video/x-msvideo'', ''video/x-matroska''}
       \<and> fileExtension f \<in> {''.mp4'', ''.webm'', ''.mov'', ''.avi'', ''.mkv''}
       \<and> file_size f \<le> 2 * 1024 ^ 3
       \<and> file_size f \<noteq> 0))
   \<and> sent (handleFileSelect x (f # fs) s) =
       (if isValid (validateFile f) \<and> x = Sent then sent s @ [f] else sent s)"
proof -
  have types: "set ALLOWED_VIDEO_TYPES = {''video/mp4'', ''video/webm'', ''video/quicktime'',
      ''video/x-msvideo'', ''video/x-matroska''}"
    by (simp add: ALLOWED_VIDEO_TYPES_def)
  have exts: "set ALLOWED_EXTENSIONS = {''.mp4'', ''.webm'', ''.mov'', ''.avi'', ''.mkv''}"
    by (simp add: ALLOWED_EXTENSIONS_def)
  have lim: "MAX_FILE_SIZE = 2 * 1024 ^ 3"
    by (simp add: MAX_FILE_SIZE_def)
  have valid: "isValid (validateFile f) =
     (file_type f \<in> {''video/mp4'', ''video/webm'', ''video/quicktime'',
                      ''video/x-msvideo'', ''video/x-matroska''}
      \<and> fileExtension f \<in> {''.mp4'', ''.webm'', ''.mov'', ''.avi'', ''.mkv''}
      \<and> file_size f \<le> 2 * 1024 ^ 3 \<and> file_size f \<noteq> 0)"
    unfolding validateFile_valid_iff types exts lim ..
  have reject: "(isValid (validateFile f) = False \<and> error (validateFile f) \<noteq> None) =
      (\<not> isValid (validateFile f))"
    using validateFile_error_iff [of f] by auto
  have c1: "(isValid (validateFile f) = False \<and> error (validateFile f) \<noteq> None) =
      (file_type f \<notin> {''video/mp4'', ''video/webm'', ''video/quicktime'',
                      ''video/x-msvideo'', ''video/x-matroska''}
       \<or> fileExtension f \<notin> {''.mp4'', ''.webm'', ''.mov'', ''.avi'', ''.mkv''}
       \<or> file_size f > 2 * 1024 ^ 3
       \<or> file_size f = 0)"
    unfolding reject unfolding valid by (simp only: de_Morgan_conj not_le not_not)
  have c2: "(validateFile f = \<lparr>isValid = True, error = None\<rparr>) =
      (file_type f \<in> {''video/mp4'', ''video/webm'', ''video/quicktime'',
                      ''video/x-msvideo'', ''video/x-matroska''}
       \<and> fileExtension f \<in> {''.mp4'', ''.webm'', ''.mov'', ''.avi'', ''.mkv''}
       \<and> file_size f \<le> 2 * 1024 ^ 3
       \<and> file_size f \<noteq> 0)"
    unfolding validateFile_accept_iff by (rule valid)
  show ?thesis
    using c1 c2 sent_handleFileSelect [of x f fs s] by (intro conjI)
qed

theorem validateFile_rejects_exactly_witness:
  "validateFile \<lparr>file_type = ''video/mp4'', file_name = ''Holiday.2024.MP4'', file_size = 1\<rparr>
     = \<lparr>isValid = True, error = None\<rparr>
   \<and> \<not> isValid (validateFile \<lparr>file_type = ''video/mp4'', file_name = ''Holiday.MP4'', file_size = 0\<rparr>)
   \<and> \<not> isValid (validateFile \<lparr>file_type = ''video/mp4'', file_name = ''Holiday.MP4'',
                                file_size = 2147483649\<rparr>)
   \<and> isValid (validateFile \<lparr>file_type = ''video/mp4'', file_name = ''Holiday.MP4'',
                                file_size = 2147483648\<rparr>)
   \<and> \<not> isValid (validateFile \<lparr>file_type = ''video/mp4'', file_name = ''Holiday.txt'', file_size = 7\<rparr>)"
  using validateFile_rejects_exactly
    [of "\<lparr>file_type = ''video/mp4'', file_name = ''Holiday.2024.MP4'', file_size = 1\<rparr>"]
    validateFile_rejects_exactly
    [of "\<lparr>file_type = ''video/mp4'', file_name = ''Holiday.MP4'', file_size = 0\<rparr>"]
    validateFile_rejects_exactly
    [of "\<lparr>file_type = ''video/mp4'', file_name = ''Holiday.MP4'', file_size = 2147483649\<rparr>"]
    validateFile_rejects_exactly
    [of "\<lparr>file_type = ''video/mp4'', file_name = ''Holiday.MP4'', file_size = 2147483648\<rparr>"]
    validateFile_rejects_exactly
    [of "\<lparr>file_type = ''video/mp4'', file_name = ''Holiday.txt'', file_size = 7\<rparr>"]
  by (simp add: fileExtension_def toLowerCase_def toLowerCase_char_def isUpperCase_def)

text \<open>
  Claim C9. The MIME-type check comes first: a file whose type is not one of the allowed
  video types gets the "Invalid file type" error whatever its extension is, also when the
  extension is an allowed one and the browser reports an empty type.
\<close>

theorem validateFile_type_first:
  "file_type f \<notin> {''video/mp4'', ''video/webm'', ''video/quicktime'',
                    ''video/x-msvideo'', ''video/x-matroska''}
   \<Longrightarrow> validateFile f =
         \<lparr>isValid = False,
          error = Some ''Invalid file type. Allowed types: .mp4, .webm, .mov, .avi, .mkv''\<rparr>"
  by (simp add: validateFile_def ALLOWED_VIDEO_TYPES_def ALLOWED_EXTENSIONS_def)

theorem validateFile_type_first_witness:
  "fileExtension \<lparr>file_type = '''', file_name = ''clip.mp4'', file_size = 1024\<rparr>
     \<in> set ALLOWED_EXTENSIONS
   \<and> validateFile \<lparr>file_type = '''', file_name = ''clip.mp4'', file_size = 1024\<rparr> =
         \<lparr>isValid = False,
          error = Some ''Invalid file type. Allowed types: .mp4, .webm, .mov, .avi, .mkv''\<rparr>"
  using validateFile_type_first
    [of "\<lparr>file_type = '''', file_name = ''clip.mp4'', file_size = 1024\<rparr>"]
  by (simp add: fileExtension_def toLowerCase_def toLowerCase_char_def isUpperCase_def ALLOWED_EXTENSIONS_def)

section \<open>Properties of the task list\<close>

lemma mset_insert_cmp: "mset (insert_cmp cmp x ys) = add_mset x (mset ys)"
  by (induction ys) auto

lemma mset_sort_cmp: "mset (sort_cmp cmp xs) = mset xs"
  by (induction xs) (auto simp: sort_cmp_def mset_insert_cmp)

lemma filterAndSort_eq:
  "filterAndSort lc tasks fs q sb =
     sort_cmp (compareTasks lc sb)
       (filter (\<lambda>t. (fs = ''all'' \<or> task_status t = fs) \<and> (trim q = [] \<or> matchesQuery q t))
          tasks)"
  by (cases "fs = ''all''"; cases "trim q = []") (simp_all add: filterAndSort_def Let_def conj_commute)

lemma shown_after_effect:
  "shown (render tasks (runEffect lc tasks st)) =
     filterAndSort lc tasks (filterStatus st) (searchQuery st) (sortBy st)"
  by (simp add: render_def runEffect_def)

lemma footer_after_effect:
  "footer (render tasks (runEffect lc tasks st)) = Some (x, y) \<Longrightarrow>
     x = length (filterAndSort lc tasks (filterStatus st) (searchQuery st) (sortBy st))
     \<and> y = length tasks"
  by (simp add: render_def runEffect_def split: if_splits)

text \<open>
  Claim C10, amended. In the render that follows the filter-and-sort effect, for the same
  tasks, the displayed list is a permutation of exactly those input tasks that pass the
  status filter (every task when the filter is \<open>all\<close>) and, when the search query is not
  blank, contain the query as typed, compared case-insensitively, in their name or id; a
  query that is empty after trimming filters nothing. So the list is a sub-multiset of
  the input, and a footer "Showing X of Y" has \<open>X \<le> Y\<close>. The first render of the
  component displays the input tasks as they are.
\<close>

theorem displayed_permutation_of_matches:
  "mset (shown (render tasks (runEffect localeCompare tasks st))) =
     filter_mset
       (\<lambda>t. (filterStatus st = ''all'' \<or> task_status t = filterStatus st)
            \<and> (trim (searchQuery st) = []
                \<or> includes_str (toLowerCase (task_name t)) (toLowerCase (searchQuery st))
                \<or> includes_str (toLowerCase (task_id t)) (toLowerCase (searchQuery st))))
       (mset tasks)
   \<and> mset (shown (render tasks (runEffect localeCompare tasks st))) \<subseteq># mset tasks
   \<and> (\<forall>x y. footer (render tasks (runEffect localeCompare tasks st)) = Some (x, y) \<longrightarrow> x \<le> y)
   \<and> shown (render tasks (initial_state tasks)) = tasks"
proof -
  let ?r = "filterAndSort localeCompare tasks (filterStatus st) (searchQuery st) (sortBy st)"
  have eq: "mset ?r =
     filter_mset
       (\<lambda>t. (filterStatus st = ''all'' \<or> task_status t = filterStatus st)
            \<and> (trim (searchQuery st) = []
                \<or> includes_str (toLowerCase (task_name t)) (toLowerCase (searchQuery st))
                \<or> includes_str (toLowerCase (task_id t)) (toLowerCase (searchQuery st))))
       (mset tasks)"
    by (simp add: filterAndSort_eq mset_sort_cmp matchesQuery_def)
  have sub: "mset ?r \<subseteq># mset tasks"
    unfolding eq by (rule multiset_filter_subset)
  have "size (mset ?r) \<le> size (mset tasks)"
    using sub by (rule size_mset_mono)
  then have len: "length ?r \<le> length tasks"
    by simp
  have foot: "\<forall>x y. footer (render tasks (runEffect localeCompare tasks st)) = Some (x, y)
      \<longrightarrow> x \<le> y"
    using footer_after_effect [of tasks localeCompare st] len by blast
  have first: "shown (render tasks (initial_state tasks)) = tasks"
    by (simp add: render_def initial_state_def)
  show ?thesis
    unfolding shown_after_effect using eq sub foot first by (intro conjI)
qed

theorem displayed_permutation_of_matches_witness:
  "shown (render
     [\<lparr>task_id = ''t1'', task_name = ''zebra clip'', task_status = ''failed'',
       created_at = Some 10, task_progress = None\<rparr>,
      \<lparr>task_id = ''t2'', task_name = ''Holiday'', task_status = ''completed'',
       created_at = Some 20, task_progress = Some 100\<rparr>,
      \<lparr>task_id = ''t3'', task_name = [CHR 0xC0, CHR '' '', CHR ''C'', CHR ''L'', CHR ''I'', CHR ''P''],
       task_status = ''failed'', created_at = Some 30, task_progress = Some 40\<rparr>]
     (runEffect compare_code_units
       [\<lparr>task_id = ''t1'', task_name = ''zebra clip'', task_status = ''failed'',
         created_at = Some 10, task_progress = None\<rparr>,
        \<lparr>task_id = ''t2'', task_name = ''Holiday'', task_status = ''completed'',
         created_at = Some 20, task_progress = Some 100\<rparr>,
        \<lparr>task_id = ''t3'', task_name = [CHR 0xC0, CHR '' '', CHR ''C'', CHR ''L'', CHR ''I'', CHR ''P''],
         task_status = ''failed'', created_at = Some 30, task_progress = Some 40\<rparr>]
       \<lparr>filteredTasks = [], filterStatus = ''failed'', sortBy = ''created_at'',
        searchQuery = [CHR 0xE0, CHR '' '', CHR ''c'']\<rparr>))
   = [\<lparr>task_id = ''t3'', task_name = [CHR 0xC0, CHR '' '', CHR ''C'', CHR ''L'', CHR ''I'', CHR ''P''],
       task_status = ''failed'', created_at = Some 30, task_progress = Some 40\<rparr>]
   \<and> footer (render
     [\<lparr>task_id = ''t1'', task_name = ''zebra clip'', task_status = ''failed'',
       created_at = Some 10, task_progress = None\<rparr>,
      \<lparr>task_id = ''t2'', task_name = ''Holiday'', task_status = ''completed'',
       created_at = Some 20, task_progress = Some 100\<rparr>,
      \<lparr>task_id = ''t3'', task_name = [CHR 0xC0, CHR '' '', CHR ''C'', CHR ''L'', CHR ''I'', CHR ''P''],
       task_status = ''failed'', created_at = Some 30, task_progress = Some 40\<rparr>]
     (runEffect compare_code_units
       [\<lparr>task_id = ''t1'', task_name = ''zebra clip'', task_status = ''failed'',
         created_at = Some 10, task_progress = None\<rparr>,
        \<lparr>task_id = ''t2'', task_name = ''Holiday'', task_status = ''completed'',
         created_at = Some 20, task_progress = Some 100\<rparr>,
        \<lparr>task_id = ''t3'', task_name = [CHR 0xC0, CHR '' '', CHR ''C'', CHR ''L'', CHR ''I'', CHR ''P''],
         task_status = ''failed'', created_at = Some 30, task_progress = Some 40\<rparr>]
       \<lparr>filteredTasks = [], filterStatus = ''failed'', sortBy = ''created_at'',
        searchQuery = [CHR 0xE0, CHR '' '', CHR ''c'']\<rparr>))
   = Some (1, 3)"
  using displayed_permutation_of_matches [of
     "[\<lparr>task_id = ''t1'', task_name = ''zebra clip'', task_status = ''failed'',
       created_at = Some 10, task_progress = None\<rparr>,
      \<lparr>task_id = ''t2'', task_name = ''Holiday'', task_status = ''completed'',
       created_at = Some 20, task_progress = Some 100\<rparr>,
      \<lparr>task_id = ''t3'', task_name = [CHR 0xC0, CHR '' '', CHR ''C'', CHR ''L'', CHR ''I'', CHR ''P''],
       task_status = ''failed'', created_at = Some 30, task_progress = Some 40\<rparr>]"
     compare_code_units
     "\<lparr>filteredTasks = [], filterStatus = ''failed'', sortBy = ''created_at'',
        searchQuery = [CHR 0xE0, CHR '' '', CHR ''c'']\<rparr>"]
  by (simp add: render_def runEffect_def filterAndSort_def trim_def isWhiteSpace_def sort_cmp_def
      toLowerCase_def toLowerCase_char_def isUpperCase_def matchesQuery_def compareTasks_def)

text \<open>
  Claim C10 as stated fails twice. With the search query \<open>" "\<close> (one space) the search
  filter is skipped, and a task whose name and id contain no space is displayed after the
  effect has run. And the render that follows a change of the input, before the effect
  has run again, still displays the list stored for the previous input: after the tasks
  shrink from two to one the footer reads "Showing 2 of 1".
\<close>

theorem displayed_blank_query_stale_render_counterexample:
  "shown (render
     [\<lparr>task_id = ''t1'', task_name = ''clip'', task_status = ''pending'',
       created_at = Some 0, task_progress = None\<rparr>]
     (runEffect compare_code_units
       [\<lparr>task_id = ''t1'', task_name = ''clip'', task_status = ''pending'',
         created_at = Some 0, task_progress = None\<rparr>]
       \<lparr>filteredTasks = [], filterStatus = ''all'', sortBy = ''name'', searchQuery = '' ''\<rparr>))
   = [\<lparr>task_id = ''t1'', task_name = ''clip'', task_status = ''pending'',
       created_at = Some 0, task_progress = None\<rparr>]
   \<and> \<not> includes_str (toLowerCase ''clip'') (toLowerCase '' '')
   \<and> \<not> includes_str (toLowerCase ''t1'') (toLowerCase '' '')
   \<and> footer (render
     [\<lparr>task_id = ''t1'', task_name = ''clip'', task_status = ''pending'',
       created_at = Some 0, task_progress = None\<rparr>]
     (runEffect compare_code_units
       [\<lparr>task_id = ''t1'', task_name = ''clip'', task_status = ''pending'',
         created_at = Some 0, task_progress = None\<rparr>,
        \<lparr>task_id = ''t2'', task_name = ''trailer'', task_status = ''pending'',
         created_at = Some 5, task_progress = None\<rparr>]
       (initial_state
         [\<lparr>task_id = ''t1'', task_name = ''clip'', task_status = ''pending'',
           created_at = Some 0, task_progress = None\<rparr>,
          \<lparr>task_id = ''t2'', task_name = ''trailer'', task_status = ''pending'',
           created_at = Some 5, task_progress = None\<rparr>])))
   = Some (2, 1)"
  by (simp add: render_def runEffect_def initial_state_def filterAndSort_def trim_def
      isWhiteSpace_def sort_cmp_def toLowerCase_def toLowerCase_char_def isUpperCase_def
      compareTasks_def)

text \<open>
  Claim C5 as stated fails: a record that has been acquired and has received the progress
  update 100 is PROCESSING with progress 100, and a task that is still \<open>processing\<close> and
  whose stored progress is 100 is shown with 100.
\<close>

theorem getProgressPercentage_counterexample:
  "status (last (run_triggers [TaskAcquired 1, ProgressUpdate 100] (create_task 3))) = PROCESSING
   \<and> progress (last (run_triggers [TaskAcquired 1, ProgressUpdate 100] (create_task 3))) = 100
   \<and> getProgressPercentage \<lparr>task_id = ''t1'', task_name = ''clip'', task_status = ''processing'',
       created_at = Some 0, task_progress = Some 100\<rparr> = 100
   \<and> task_status \<lparr>task_id = ''t1'', task_name = ''clip'', task_status = ''processing'',
       created_at = Some 0, task_progress = Some 100\<rparr> \<noteq> ''completed''"
  by (simp add: getProgressPercentage_def create_task_def)

text \<open>
  Claim C5, amended. A completed task is shown with 100 and a failed task with 0; a task
  in any other status is shown with its stored progress, and with 0 when it has none. So
  the progress shown is 100 exactly when the task is completed, or is not failed and has
  stored progress 100.
\<close>

theorem getProgressPercentage_shown:
  "(task_status t = ''completed'' \<longrightarrow> getProgressPercentage t = 100)
   \<and> (task_status t = ''failed'' \<longrightarrow> getProgressPercentage t = 0)
   \<and> (task_status t \<noteq> ''completed'' \<and> task_status t \<noteq> ''failed'' \<longrightarrow>
        (\<forall>p. task_progress t = Some p \<longrightarrow> getProgressPercentage t = p)
        \<and> (task_progress t = None \<longrightarrow> getProgressPercentage t = 0))
   \<and> ((getProgressPercentage t = 100) =
        (task_status t = ''completed''
         \<or> (task_status t \<noteq> ''failed'' \<and> task_progress t = Some 100)))"
  by (auto simp add: getProgressPercentage_def split: option.splits)

theorem getProgressPercentage_shown_witness:
  "getProgressPercentage \<lparr>task_id = ''t2'', task_name = ''Holiday'', task_status = ''completed'',
       created_at = Some 20, task_progress = Some 35\<rparr> = 100
   \<and> getProgressPercentage \<lparr>task_id = ''t3'', task_name = ''A CLIP'', task_status = ''failed'',
       created_at = Some 30, task_progress = Some 100\<rparr> = 0
   \<and> getProgressPercentage \<lparr>task_id = ''t4'', task_name = ''B'', task_status = ''pending'',
       created_at = Some 30, task_progress = None\<rparr> = 0
   \<and> getProgressPercentage \<lparr>task_id = ''t5'', task_name = ''C'', task_status = ''processing'',
       created_at = Some 40, task_progress = Some 45\<rparr> = 45"
  using getProgressPercentage_shown [of "\<lparr>task_id = ''t2'', task_name = ''Holiday'',
       task_status = ''completed'', created_at = Some 20, task_progress = Some 35\<rparr>"]
    getProgressPercentage_shown [of "\<lparr>task_id = ''t3'', task_name = ''A CLIP'',
       task_status = ''failed'', created_at = Some 30, task_progress = Some 100\<rparr>"]
    getProgressPercentage_shown [of "\<lparr>task_id = ''t4'', task_name = ''B'',
       task_status = ''pending'', created_at = Some 30, task_progress = None\<rparr>"]
    getProgressPercentage_shown [of "\<lparr>task_id = ''t5'', task_name = ''C'',
       task_status = ''processing'', created_at = Some 40, task_progress = Some 45\<rparr>"]
  by simp

section \<open>Properties of the task lifecycle and the retry delay\<close>

text \<open>
  Claim C1 as stated fails: FAILED is not terminal. A task that has failed (here with
  \<open>max_retries = 1\<close>, at its first error) is put back to QUEUED by the manual retry.
\<close>

theorem retry_of_failed_task_counterexample:
  "map status (run_triggers
       [TaskAcquired 1, ProcessingError UPLOAD_FAILED, RetryFailed] (create_task 1))
   = [QUEUED, PROCESSING, FAILED, QUEUED]"
  by (simp add: create_task_def Let_def)

text \<open>
  Claim C1, amended. For every task record and every operation on it, a cancellation
  request to a record that is already COMPLETED, FAILED or CANCELLED set aside, the status
  changes only along the edges QUEUED to PROCESSING, PROCESSING to COMPLETED, PROCESSING
  to FAILED, PROCESSING to QUEUED, QUEUED or PROCESSING to CANCELLED and FAILED to QUEUED,
  and a progress update leaves a PROCESSING record PROCESSING. CANCELLED is entered by a
  cancellation request and by nothing else. COMPLETED and CANCELLED have no such
  transition, and FAILED only the manual retry, which leads to QUEUED.
\<close>

theorem transition_edges:
  assumes "transition e r = Some r'"
    and "e = CancellationRequest \<longrightarrow> status r = QUEUED \<or> status r = PROCESSING"
  shows "((status r, status r') \<in>
            {(QUEUED, PROCESSING), (PROCESSING, COMPLETED), (PROCESSING, FAILED),
             (PROCESSING, QUEUED), (QUEUED, CANCELLED), (PROCESSING, CANCELLED),
             (FAILED, QUEUED)}
          \<or> ((\<exists>p. e = ProgressUpdate p) \<and> status r = PROCESSING \<and> status r' = PROCESSING))
         \<and> (status r' = CANCELLED) = (e = CancellationRequest)
         \<and> status r \<noteq> COMPLETED \<and> status r \<noteq> CANCELLED
         \<and> (status r = FAILED \<longrightarrow> e = RetryFailed \<and> status r' = QUEUED)"
  using assms by (cases e) (auto simp add: Let_def split: if_splits)

theorem transition_edges_witness:
  "transition (ProcessingError UPLOAD_FAILED) ((create_task 3)\<lparr>status := PROCESSING\<rparr>)
     = Some ((create_task 3)\<lparr>status := QUEUED, retry_count := 1\<rparr>)
   \<and> transition CancellationRequest ((create_task 3)\<lparr>status := PROCESSING\<rparr>)
     = Some ((create_task 3)\<lparr>status := CANCELLED\<rparr>)
   \<and> transition RetryFailed ((create_task 3)\<lparr>status := FAILED\<rparr>)
     = Some ((create_task 3)\<lparr>status := QUEUED\<rparr>)
   \<and> transition HeartbeatLost ((create_task 3)\<lparr>status := PROCESSING\<rparr>)
     = Some ((create_task 3)\<lparr>status := QUEUED\<rparr>)"
  using transition_edges [of "ProcessingError UPLOAD_FAILED"
      "(create_task 3)\<lparr>status := PROCESSING\<rparr>"
      "(create_task 3)\<lparr>status := QUEUED, retry_count := 1\<rparr>"]
    transition_edges [of CancellationRequest "(create_task 3)\<lparr>status := PROCESSING\<rparr>"
      "(create_task 3)\<lparr>status := CANCELLED\<rparr>"]
    transition_edges [of RetryFailed "(create_task 3)\<lparr>status := FAILED\<rparr>"
      "(create_task 3)\<lparr>status := QUEUED\<rparr>"]
    transition_edges [of HeartbeatLost "(create_task 3)\<lparr>status := PROCESSING\<rparr>"
      "(create_task 3)\<lparr>status := QUEUED\<rparr>"]
  by (simp add: create_task_def)

lemma run_triggers_stuck:
  "status r = FAILED \<Longrightarrow> run_triggers (failing_attempts k now) r = [r]"
  by (cases k) simp_all

text \<open>
  Claim C2, evaluated on the transitions as written. A task with \<open>max_retries = 3\<close> whose
  every attempt ends in a processing error goes QUEUED, PROCESSING, QUEUED only twice,
  however many attempts are offered: the third error raises \<open>retry_count\<close> to 3 before the
  test \<open>retry_count < max_retries\<close>, so the record becomes FAILED with \<open>retry_count = 3\<close>
  and a fourth attempt never starts.
\<close>

theorem always_failing_requeued_twice:
  "map status (run_triggers (failing_attempts (3 + k) 1) (create_task 3))
     = [QUEUED, PROCESSING, QUEUED, PROCESSING, QUEUED, PROCESSING, FAILED]
   \<and> count_requeues (map status (run_triggers (failing_attempts (3 + k) 1) (create_task 3))) = 2
   \<and> retry_count (last (run_triggers (failing_attempts (3 + k) 1) (create_task 3))) = 3"
proof -
  have split: "failing_attempts (3 + k) 1 =
      [TaskAcquired 1, ProcessingError UPLOAD_FAILED,
       TaskAcquired 2, ProcessingError UPLOAD_FAILED,
       TaskAcquired 3, ProcessingError UPLOAD_FAILED]
      @ failing_attempts k 4"
    by (simp add: numeral_3_eq_3 eval_nat_numeral)
  have run: "run_triggers (failing_attempts (3 + k) 1) (create_task 3) =
      [create_task 3,
       (create_task 3)\<lparr>status := PROCESSING, started_at := Some 1\<rparr>,
       (create_task 3)\<lparr>status := QUEUED, started_at := Some 1, retry_count := 1\<rparr>,
       (create_task 3)\<lparr>status := PROCESSING, started_at := Some 2, retry_count := 1\<rparr>,
       (create_task 3)\<lparr>status := QUEUED, started_at := Some 2, retry_count := 2\<rparr>,
       (create_task 3)\<lparr>status := PROCESSING, started_at := Some 3, retry_count := 2\<rparr>,
       (create_task 3)\<lparr>status := FAILED, started_at := Some 3, retry_count := 3,
          error_message := Some ''Network issues''\<rparr>]"
    unfolding split
    by (simp add: create_task_def UPLOAD_FAILED_def Let_def run_triggers_stuck)
  show ?thesis
    unfolding run by (simp add: create_task_def)
qed

lemma delay_bounds:
  assumes b: "0 < (b::real)" and j: "4 / 5 \<le> j" "j \<le> 6 / 5"
  shows "4 / 5 * min 300 b \<le> min (b * j) 300" and "min (b * j) 300 \<le> 6 / 5 * min 300 b"
proof -
  have l: "4 / 5 * b \<le> b * j" using b j by (simp add: mult.commute mult_left_mono)
  have u: "b * j \<le> 6 / 5 * b" using b j by (simp add: mult.commute mult_left_mono)
  show "4 / 5 * min 300 b \<le> min (b * j) 300"
    using l by (simp add: min_def split: if_splits)
  show "min (b * j) 300 \<le> 6 / 5 * min 300 b"
    using u by (simp add: min_def split: if_splits)
qed

text \<open>
  Claim C3. For every retry attempt \<open>n \<ge> 1\<close> and every jitter draw in \<open>[0.8, 1.2]\<close> the
  computed delay is \<open>min(300, 2^(n-1)) * j\<close> for some \<open>j\<close> in \<open>[0.8, 1.2]\<close>, that is, it
  lies in \<open>[0.8, 1.2] * min(300, 2^(n-1))\<close>, and in \<open>[240, 360]\<close> once \<open>2^(n-1)\<close> exceeds
  300. (The code caps after applying the jitter, so \<open>j\<close> need not be the draw itself.)
\<close>

theorem retry_delay_interval:
  assumes "1 \<le> n" and "0.8 \<le> jitter" and "jitter \<le> 1.2"
  shows "(\<exists>j. 0.8 \<le> j \<and> j \<le> 1.2
            \<and> calculate_retry_delay jitter n maxRetries = min 300 (1 * 2 ^ nat (n - 1)) * j)
         \<and> 0.8 * min 300 (2 ^ nat (n - 1)) \<le> calculate_retry_delay jitter n maxRetries
         \<and> calculate_retry_delay jitter n maxRetries \<le> 1.2 * min 300 (2 ^ nat (n - 1))
         \<and> ((300::real) < 2 ^ nat (n - 1) \<longrightarrow>
               240 \<le> calculate_retry_delay jitter n maxRetries
               \<and> calculate_retry_delay jitter n maxRetries \<le> 360)"
proof -
  define b :: real where "b = 2 ^ nat (n - 1)"
  define m :: real where "m = min 300 b"
  define d where "d = calculate_retry_delay jitter n maxRetries"
  have bpos: "0 < b" by (simp add: b_def)
  have mpos: "0 < m" using bpos by (simp add: m_def)
  have d: "d = min (b * jitter) 300"
    using assms(1) by (simp add: d_def calculate_retry_delay_def base_delay_def b_def)
  have lo: "0.8 * m \<le> d" and hi: "d \<le> 1.2 * m"
    using delay_bounds [OF bpos, of jitter] assms(2,3) unfolding d m_def by simp_all
  have ex: "\<exists>j. 0.8 \<le> j \<and> j \<le> 1.2 \<and> d = m * j"
  proof (intro exI conjI)
    show "0.8 \<le> d / m" using lo mpos by (simp add: pos_le_divide_eq)
    show "d / m \<le> 1.2" using hi mpos by (simp add: pos_divide_le_eq)
    show "d = m * (d / m)" using mpos by simp
  qed
  have big: "300 < b \<longrightarrow> 240 \<le> d \<and> d \<le> 360"
    using lo hi by (auto simp add: m_def)
  show ?thesis
    using ex lo hi big unfolding d_def m_def b_def by simp
qed

theorem retry_delay_interval_witness:
  "calculate_retry_delay 1.2 3 3 = 4.8 \<and> calculate_retry_delay 1.2 10 3 = 300
   \<and> calculate_retry_delay 0.8 10 3 = 300"
  using retry_delay_interval [of 3 "1.2" 3] retry_delay_interval [of 10 "1.2" 3]
    retry_delay_interval [of 10 "0.8" 3]
  by (simp add: calculate_retry_delay_def base_delay_def)

section \<open>Properties of update batching and of the checkpoint store\<close>

lemma addUpdates_snoc: "addUpdates (us @ [u]) b = addUpdate u (addUpdates us b)"
  by (simp add: addUpdates_def)

lemma delivered_addUpdates: "delivered (addUpdates us b) = delivered b"
  by (induction us rule: rev_induct) (simp_all add: addUpdates_def addUpdate_def)

lemma queue_addUpdates: "us \<noteq> [] \<Longrightarrow> queue (addUpdates us b) = [last us]"
  by (induction us rule: rev_induct) (simp_all add: addUpdates_def addUpdate_def)

lemma delivered_onInterval_le: "length (delivered (onInterval b)) \<le> Suc (length (delivered b))"
  by (simp add: onInterval_def split: list.splits)

text \<open>
  Claim C6. Whatever updates \<open>us\<close> arrive within one interval, the interval's callback
  hands at most one of them to \<open>onBatch\<close>; when there are any it is the last one, the
  queue is empty afterwards, and the next callback delivers nothing: the earlier values
  are dropped, not kept for later.
\<close>

theorem batcher_delivers_latest_only:
  "length (delivered (onInterval (addUpdates us b))) \<le> Suc (length (delivered b))
   \<and> (us \<noteq> [] \<longrightarrow>
        delivered (onInterval (addUpdates us b)) = delivered b @ [last us]
        \<and> queue (onInterval (addUpdates us b)) = []
        \<and> onInterval (onInterval (addUpdates us b)) = onInterval (addUpdates us b))"
proof -
  have c1: "length (delivered (onInterval (addUpdates us b))) \<le> Suc (length (delivered b))"
    using delivered_onInterval_le [of "addUpdates us b"] by (simp add: delivered_addUpdates)
  have c2: "delivered (onInterval (addUpdates us b)) = delivered b @ [last us]"
    and c3: "queue (onInterval (addUpdates us b)) = []"
    if "us \<noteq> []"
    using that by (simp_all add: onInterval_def queue_addUpdates delivered_addUpdates)
  have c4: "onInterval (onInterval (addUpdates us b)) = onInterval (addUpdates us b)"
    if "us \<noteq> []"
    using c3 [OF that] by (simp add: onInterval_def [of "onInterval (addUpdates us b)"])
  show ?thesis
    using c1 c2 c3 c4 by blast
qed

theorem batcher_delivers_latest_only_witness:
  "delivered (onInterval (addUpdates [10, 20, 35 :: nat] new_batcher)) = [35]
   \<and> delivered (onInterval (onInterval (addUpdates [10, 20, 35 :: nat] new_batcher))) = [35]"
  using batcher_delivers_latest_only [of "[10, 20, 35 :: nat]" new_batcher]
  by (simp add: new_batcher_def)

text \<open>
  Claim C7. When a checkpoint with sequence number \<open>stored_seq\<close> is stored for the task,
  \<open>save\<close> with a sequence number that is not strictly greater is rejected with
  \<open>StaleCheckpoint\<close> and leaves the store, payload and sequence number, as it was; with a
  strictly greater one it succeeds and replaces the stored checkpoint.
\<close>

theorem save_stale_rejected:
  "store taskId = Some (stored_seq, stored_payload) \<Longrightarrow>
     (seq \<le> stored_seq \<longrightarrow> save taskId seq payload store = (Some StaleCheckpoint, store))
     \<and> (stored_seq < seq \<longrightarrow>
          save taskId seq payload store = (None, store(taskId \<mapsto> (seq, payload))))"
  by (simp add: save_def)

theorem save_stale_rejected_witness:
  "save ''t1'' 4 ''chunk-4'' [''t1'' \<mapsto> (5, ''chunk-5'')]
     = (Some StaleCheckpoint, [''t1'' \<mapsto> (5, ''chunk-5'')])
   \<and> save ''t1'' 5 ''chunk-5b'' [''t1'' \<mapsto> (5, ''chunk-5'')]
     = (Some StaleCheckpoint, [''t1'' \<mapsto> (5, ''chunk-5'')])
   \<and> save ''t1'' 6 ''chunk-6'' [''t1'' \<mapsto> (5, ''chunk-5'')]
     = (None, [''t1'' \<mapsto> (6, ''chunk-6'')])"
  using save_stale_rejected [of "[''t1'' \<mapsto> (5, ''chunk-5'')]" "''t1''" 5 "''chunk-5''" 4 "''chunk-4''"]
    save_stale_rejected [of "[''t1'' \<mapsto> (5, ''chunk-5'')]" "''t1''" 5 "''chunk-5''" 5 "''chunk-5b''"]
    save_stale_rejected [of "[''t1'' \<mapsto> (5, ''chunk-5'')]" "''t1''" 5 "''chunk-5''" 6 "''chunk-6''"]
  by simp

section \<open>Mutual exclusion of task acquisition\<close>





lemma calls_DelLock: "calls (system_step DelLock s) = calls s"
  by simp





















end
